theory Spec2Isabelle
  imports Complex_Main
begin

section \<open>JavaScript numbers\<close>

text \<open>
  A JavaScript number is an IEEE-754 double. The model keeps the three special values the
  source can produce by dividing (\<open>Infinity\<close>, \<open>-Infinity\<close>, \<open>NaN\<close>) and idealises a finite
  double as the real number it denotes: rounding, overflow and the sign of zero are not
  modelled. A zero divisor is \<open>+0\<close>: every divisor of the source is a count, a difference
  \<open>x - y\<close>, a sum started at \<open>0\<close>, or a quotient of one of those by a positive constant, and
  none of these is \<open>-0\<close> under round-to-nearest.
\<close>

datatype jsnum = Fin real | PInf | NInf | NaN

fun jneg :: "jsnum \<Rightarrow> jsnum" where
  "jneg (Fin a) = Fin (- a)"
| "jneg PInf = NInf"
| "jneg NInf = PInf"
| "jneg NaN = NaN"

fun jadd :: "jsnum \<Rightarrow> jsnum \<Rightarrow> jsnum" where
  "jadd (Fin a) (Fin b) = Fin (a + b)"
| "jadd (Fin a) PInf = PInf"
| "jadd (Fin a) NInf = NInf"
| "jadd PInf (Fin b) = PInf"
| "jadd PInf PInf = PInf"
| "jadd PInf NInf = NaN"
| "jadd NInf (Fin b) = NInf"
| "jadd NInf PInf = NaN"
| "jadd NInf NInf = NInf"
| "jadd NaN b = NaN"
| "jadd a NaN = NaN"

definition jsub :: "jsnum \<Rightarrow> jsnum \<Rightarrow> jsnum" where
  "jsub a b = jadd a (jneg b)"

fun jmul :: "jsnum \<Rightarrow> jsnum \<Rightarrow> jsnum" where
  "jmul (Fin a) (Fin b) = Fin (a * b)"
| "jmul (Fin a) PInf = (if a = 0 then NaN else if 0 < a then PInf else NInf)"
| "jmul (Fin a) NInf = (if a = 0 then NaN else if 0 < a then NInf else PInf)"
| "jmul PInf (Fin b) = (if b = 0 then NaN else if 0 < b then PInf else NInf)"
| "jmul NInf (Fin b) = (if b = 0 then NaN else if 0 < b then NInf else PInf)"
| "jmul PInf PInf = PInf"
| "jmul PInf NInf = NInf"
| "jmul NInf PInf = NInf"
| "jmul NInf NInf = PInf"
| "jmul NaN b = NaN"
| "jmul a NaN = NaN"

fun jdiv :: "jsnum \<Rightarrow> jsnum \<Rightarrow> jsnum" where
  "jdiv (Fin a) (Fin b) =
     (if b = 0 then (if a = 0 then NaN else if 0 < a then PInf else NInf) else Fin (a / b))"
| "jdiv (Fin a) PInf = Fin 0"
| "jdiv (Fin a) NInf = Fin 0"
| "jdiv PInf (Fin b) = (if 0 \<le> b then PInf else NInf)"
| "jdiv NInf (Fin b) = (if 0 \<le> b then NInf else PInf)"
| "jdiv PInf PInf = NaN"
| "jdiv PInf NInf = NaN"
| "jdiv NInf PInf = NaN"
| "jdiv NInf NInf = NaN"
| "jdiv NaN b = NaN"
| "jdiv a NaN = NaN"

fun jabs :: "jsnum \<Rightarrow> jsnum" where
  "jabs (Fin a) = Fin \<bar>a\<bar>"
| "jabs PInf = PInf"
| "jabs NInf = PInf"
| "jabs NaN = NaN"

fun jsqrt :: "jsnum \<Rightarrow> jsnum" where
  "jsqrt (Fin a) = (if a < 0 then NaN else Fin (sqrt a))"
| "jsqrt PInf = PInf"
| "jsqrt NInf = NaN"
| "jsqrt NaN = NaN"

text \<open>\<open>a < b\<close>: false as soon as one side is \<open>NaN\<close>.\<close>

fun jlt :: "jsnum \<Rightarrow> jsnum \<Rightarrow> bool" where
  "jlt (Fin a) (Fin b) = (a < b)"
| "jlt (Fin a) PInf = True"
| "jlt (Fin a) NInf = False"
| "jlt PInf b = False"
| "jlt NInf (Fin b) = True"
| "jlt NInf PInf = True"
| "jlt NInf NInf = False"
| "jlt NaN b = False"
| "jlt a NaN = False"

definition jgt :: "jsnum \<Rightarrow> jsnum \<Rightarrow> bool" where
  "jgt a b = jlt b a"

text \<open>Truthiness of a number: \<open>0\<close> and \<open>NaN\<close> are falsy.\<close>

fun truthy :: "jsnum \<Rightarrow> bool" where
  "truthy (Fin a) = (a \<noteq> 0)"
| "truthy PInf = True"
| "truthy NInf = True"
| "truthy NaN = False"

text \<open>A count (\<open>array.length\<close>) and an integer timestamp as numbers.\<close>

definition jnat :: "nat \<Rightarrow> jsnum" where
  "jnat n = Fin (real n)"

definition jint :: "int \<Rightarrow> jsnum" where
  "jint i = Fin (real_of_int i)"

section \<open>Text built by the source\<close>

text \<open>
  A string of the source is a literal, or a template with one number between a prefix and
  a suffix: \<open>Fixed1\<close> where the source renders the number by \<open>toFixed(1)\<close>, \<open>Shown\<close> where it
  interpolates the number directly. The decimal rendering depends on the binary expansion
  of the double, so a template keeps the number itself.
\<close>

datatype js_text = Lit string | Fixed1 string jsnum string | Shown string jsnum string

definition micro :: string where
  "micro = [CHR 0xCE, CHR 0xBC]"

section \<open>The clock\<close>

text \<open>
  \<open>Date.now()\<close> (milliseconds since the epoch) and \<open>new Date().getHours()\<close> (local hour)
  as read during one callback; the callback is taken to run within one millisecond.
\<close>

record clock =
  now :: int
  hours :: nat

definition isCosmicWindow :: "clock \<Rightarrow> bool" where
  "isCosmicWindow c = (3 \<le> hours c \<and> hours c < 4)"

section \<open>DatabaseService: the tables\<close>

record vec3 =
  vx :: jsnum
  vy :: jsnum
  vz :: jsnum

text \<open>An anomaly object as the monitor builds it and \<open>recordAnomaly\<close> completes it.\<close>

record anomaly =
  an_type :: string
  an_value :: jsnum
  an_data :: "vec3 option"
  an_targetFreq :: "jsnum option"
  an_message :: js_text
  an_significance :: string
  an_timestamp :: int
  an_cosmicWindow :: bool

text \<open>A row of table \<open>anomalies\<close>; column \<open>data\<close> holds the JSON text of the payload.\<close>

record anomaly_row =
  ar_id :: nat
  ar_timestamp :: int
  ar_type :: string
  ar_value :: jsnum
  ar_significance :: string
  ar_cosmic_window :: int
  ar_message :: js_text
  ar_data :: "vec3 option"

text \<open>A row of table \<open>scans\<close> (column \<open>data\<close>, a JSON copy of the scan, is left out).\<close>

record scan_row =
  sr_id :: nat
  sr_timestamp :: int
  sr_battery_level :: jsnum
  sr_magnetic_field :: jsnum
  sr_acceleration :: jsnum
  sr_rotation :: jsnum
  sr_pressure :: jsnum
  sr_gps_accuracy :: jsnum
  sr_network_type :: string
  sr_anomaly_count :: nat
  sr_cosmic_window :: int
  sr_state51_active :: int

record trends =
  tr_battery :: js_text
  tr_magnetic :: js_text
  tr_scanCount :: nat

record state51Effect =
  activePeriods :: nat
  anomalyRate :: jsnum
  correlation :: string

text \<open>The report object of \<open>generateDailyReport\<close>.\<close>

record report =
  rp_date :: string
  totalAnomalies :: nat
  highSignificance :: nat
  cosmicWindowAnomalies :: nat
  state51Correlations :: nat
  batteryAnomalies :: nat
  magneticAnomalies :: nat
  frequencyMatches :: nat
  rp_trends :: "trends option"
  rp_state51Effect :: state51Effect
  keyFindings :: "string list"

text \<open>A row of table \<open>daily_reports\<close>; \<open>report_data\<close> is the JSON text of the report.\<close>

record report_row =
  rr_id :: nat
  rr_date :: string
  rr_total_anomalies :: nat
  rr_high_significance_count :: nat
  rr_cosmic_window_anomalies :: nat
  rr_state51_correlations :: nat
  rr_battery_anomalies :: nat
  rr_magnetic_anomalies :: nat
  rr_frequency_matches :: nat
  rr_report_data :: report

text \<open>
  The SQLite database: each table with its \<open>AUTOINCREMENT\<close> counter. Tables \<open>baselines\<close>
  and \<open>experiments\<close> are written but never read by the functions below and are left out.
  \<open>accepts_writes\<close> tells whether the engine carries out an \<open>INSERT\<close>; where it does not (a
  full or read-only file), \<open>executeSql\<close> calls its error callback.
\<close>

record tables =
  accepts_writes :: bool
  anomalies_tbl :: "anomaly_row list"
  anomalies_seq :: nat
  scans_tbl :: "scan_row list"
  scans_seq :: nat
  daily_reports_tbl :: "report_row list"
  daily_reports_seq :: nat

text \<open>\<open>this.db\<close> is \<open>null\<close> until \<open>initialize\<close> has run.\<close>

record DatabaseService =
  db :: "tables option"

datatype js_error = TypeError | SQLError

definition new_DatabaseService :: DatabaseService where
  "new_DatabaseService = \<lparr> db = None \<rparr>"

definition empty_tables :: tables where
  "empty_tables =
     \<lparr> accepts_writes = True, anomalies_tbl = [], anomalies_seq = 0, scans_tbl = [],
       scans_seq = 0, daily_reports_tbl = [], daily_reports_seq = 0 \<rparr>"

text \<open>
  \<open>initialize\<close> opens the database file and runs \<open>CREATE TABLE IF NOT EXISTS\<close>: a file
  without tables gets empty ones, the tables of an earlier run are kept.
\<close>

definition initialize :: "tables option \<Rightarrow> DatabaseService \<Rightarrow> DatabaseService" where
  "initialize file d = d\<lparr>db := Some (case file of None \<Rightarrow> empty_tables | Some t \<Rightarrow> t)\<rparr>"

text \<open>\<open>anomaly.value || 0\<close> and \<open>anomaly.significance || 'low'\<close>.\<close>

definition or_zero :: "jsnum \<Rightarrow> jsnum" where
  "or_zero v = (if truthy v then v else Fin 0)"

definition or_low :: "string \<Rightarrow> string" where
  "or_low s = (if s = [] then ''low'' else s)"

definition anomaly_to_row :: "nat \<Rightarrow> anomaly \<Rightarrow> anomaly_row" where
  "anomaly_to_row i a =
     \<lparr> ar_id = i, ar_timestamp = an_timestamp a, ar_type = an_type a,
       ar_value = or_zero (an_value a), ar_significance = or_low (an_significance a),
       ar_cosmic_window = (if an_cosmicWindow a then 1 else 0),
       ar_message = an_message a, ar_data = an_data a \<rparr>"

text \<open>
  \<open>saveAnomaly\<close>: the promise rejects with a \<open>TypeError\<close> when \<open>this.db\<close> is \<open>null\<close>
  (\<open>this.db.transaction\<close> throws inside the executor) and with the engine's error when the
  \<open>INSERT\<close> fails (\<open>(_, error) => reject(error)\<close>); otherwise one row is appended.
\<close>

definition saveAnomaly :: "anomaly \<Rightarrow> DatabaseService \<Rightarrow> js_error + DatabaseService" where
  "saveAnomaly a d =
     (case db d of
        None \<Rightarrow> Inl TypeError
      | Some t \<Rightarrow>
          if accepts_writes t
          then Inr (d\<lparr>db := Some (t\<lparr>anomalies_tbl := anomalies_tbl t @
                                        [anomaly_to_row (Suc (anomalies_seq t)) a],
                                      anomalies_seq := Suc (anomalies_seq t)\<rparr>)\<rparr>)
          else Inl SQLError)"

section \<open>SensorMonitor: state\<close>

record battery_data =
  bd_level :: jsnum

record sensor_snapshot =
  ss_magneticField :: "jsnum option"
  ss_acceleration :: "jsnum option"
  ss_rotation :: "jsnum option"
  ss_pressure :: "jsnum option"
  ss_gpsAccuracy :: "jsnum option"

record baseline =
  bl_timestamp :: int
  bl_battery :: battery_data
  bl_sensors :: sensor_snapshot

record current_data =
  cd_batteryLevel :: "jsnum option"
  cd_magneticField :: "jsnum option"
  cd_acceleration :: "jsnum option"
  cd_rotation :: "jsnum option"
  cd_pressure :: "jsnum option"

record buffer_item =
  bi_value :: jsnum
  bi_timestamp :: int

text \<open>
  The monitor object. \<open>subscriptions\<close> holds the handles returned by the sensor API and
  \<open>listeners\<close> the handles the platform still delivers to; \<open>frequencyBuffers\<close> is
  \<open>undefined\<close> until the first call of \<open>detectFrequencyPattern\<close>; \<open>alerts\<close> is the log of
  \<open>triggerAlert\<close> calls; \<open>database\<close> is the imported DatabaseService singleton.
\<close>

record monitor =
  isMonitoring :: bool
  subscriptions :: "nat list"
  listeners :: "nat list"
  baselineData :: "baseline option"
  currentData :: current_data
  anomalies :: "anomaly list"
  frequencyBuffers :: "(string \<rightharpoonup> buffer_item list) option"
  alerts :: "anomaly list"
  database :: DatabaseService

text \<open>The monitor as its constructor leaves it.\<close>

definition new_SensorMonitor :: "DatabaseService \<Rightarrow> monitor" where
  "new_SensorMonitor d =
     \<lparr> isMonitoring = False, subscriptions = [], listeners = [], baselineData = None,
       currentData = \<lparr> cd_batteryLevel = None, cd_magneticField = None, cd_acceleration = None,
                       cd_rotation = None, cd_pressure = None \<rparr>,
       anomalies = [], frequencyBuffers = None, alerts = [], database = d \<rparr>"

text \<open>The entry of the constructor's threshold table that the magnetometer rule reads.\<close>

definition threshold_magneticField :: jsnum where
  "threshold_magneticField = Fin 10"

section \<open>SensorMonitor: recording an anomaly\<close>

definition triggerAlert :: "anomaly \<Rightarrow> monitor \<Rightarrow> monitor" where
  "triggerAlert a s = s\<lparr>alerts := alerts s @ [a]\<rparr>"

text \<open>
  \<open>recordAnomaly\<close> stamps the anomaly, pushes it on \<open>this.anomalies\<close> and awaits
  \<open>saveAnomaly\<close>. A rejected save ends the function there: the anomaly stays in the list
  and no alert is raised. The result pairs the outcome of the returned promise with the
  monitor. The listeners do not await the promise, so they continue with the monitor
  whatever the outcome. A listener that records two anomalies pushes both before either
  save completes; saves and alerts then run in the order of the calls, so running each
  call to its end before the next one starts gives the same lists.
\<close>

definition recordAnomaly :: "clock \<Rightarrow> anomaly \<Rightarrow> monitor \<Rightarrow> (js_error + unit) \<times> monitor" where
  "recordAnomaly c a0 s =
     (let a = a0\<lparr>an_timestamp := now c, an_cosmicWindow := isCosmicWindow c\<rparr>;
          s1 = s\<lparr>anomalies := anomalies s @ [a]\<rparr>
      in case saveAnomaly a (database s1) of
           Inl e \<Rightarrow> (Inl e, s1)
         | Inr d \<Rightarrow>
             (let s2 = s1\<lparr>database := d\<rparr>
              in if an_significance a = ''high'' \<or> an_significance a = ''critical''
                 then (Inr (), triggerAlert a s2)
                 else (Inr (), s2)))"

text \<open>An anomaly literal of a rule, before \<open>recordAnomaly\<close> stamps it.\<close>

definition mk_anomaly :: "string \<Rightarrow> jsnum \<Rightarrow> js_text \<Rightarrow> string \<Rightarrow> anomaly" where
  "mk_anomaly ty v msg sig =
     \<lparr> an_type = ty, an_value = v, an_data = None, an_targetFreq = None, an_message = msg,
       an_significance = sig, an_timestamp = 0, an_cosmicWindow = False \<rparr>"

section \<open>SensorMonitor: the battery listener\<close>

definition drainPerHour :: "clock \<Rightarrow> baseline \<Rightarrow> jsnum \<Rightarrow> jsnum" where
  "drainPerHour c b batteryLevel =
     (let drainRate = jsub (bd_level (bl_battery b)) batteryLevel;
          timeElapsed = jdiv (jsub (jint (now c)) (jint (bl_timestamp b))) (Fin 3600000)
      in jdiv drainRate timeElapsed)"

definition battery_777 :: "jsnum \<Rightarrow> anomaly" where
  "battery_777 d =
     mk_anomaly ''battery_777'' d (Lit ''Battery drain near 7.7% universal constant!'') ''high''"

definition battery_increase :: "jsnum \<Rightarrow> anomaly" where
  "battery_increase d =
     mk_anomaly ''battery_increase'' d
       (Lit ''Battery level increasing without charging source!'') ''critical''"

definition batteryLevelListener :: "clock \<Rightarrow> jsnum \<Rightarrow> monitor \<Rightarrow> monitor" where
  "batteryLevelListener c batteryLevel s =
     (let s1 = s\<lparr>currentData := (currentData s)\<lparr>cd_batteryLevel := Some batteryLevel\<rparr>\<rparr>
      in case baselineData s1 of
           None \<Rightarrow> s1
         | Some b \<Rightarrow>
             (let d = drainPerHour c b batteryLevel;
                  s2 = (if jlt (jabs (jsub d (Fin 0.077))) (Fin 0.01)
                        then snd (recordAnomaly c (battery_777 d) s1) else s1)
              in if jlt d (Fin 0)
                 then snd (recordAnomaly c (battery_increase d) s2) else s2))"

section \<open>SensorMonitor: the magnetometer listener\<close>

text \<open>\<open>Math.sqrt(data.x ** 2 + data.y ** 2 + data.z ** 2)\<close>.\<close>

definition magnitude :: "vec3 \<Rightarrow> jsnum" where
  "magnitude v =
     jsqrt (jadd (jadd (jmul (vx v) (vx v)) (jmul (vy v) (vy v))) (jmul (vz v) (vz v)))"

definition magnetic_anomaly :: "jsnum \<Rightarrow> vec3 \<Rightarrow> anomaly" where
  "magnetic_anomaly change v =
     (mk_anomaly ''magnetic_anomaly'' change
        (Fixed1 ''Magnetic field changed by '' change ('' '' @ micro @ ''T''))
        (if jgt change (Fin 50) then ''high'' else ''medium''))
     \<lparr>an_data := Some v\<rparr>"

definition magnetic_51 :: "jsnum \<Rightarrow> anomaly" where
  "magnetic_51 m =
     mk_anomaly ''magnetic_51'' m
       (Lit (''Magnetic field at State 51 resonance (51 '' @ micro @ ''T)!'')) ''high''"

text \<open>
  Both rules sit inside the guard \<open>this.baselineData && this.baselineData.sensors.magneticField\<close>:
  a missing baseline, a baseline without a magnetometer reading, and a reading of \<open>0\<close> or
  \<open>NaN\<close> all skip them.
\<close>

definition magnetometerListener :: "clock \<Rightarrow> vec3 \<Rightarrow> monitor \<Rightarrow> monitor" where
  "magnetometerListener c v s =
     (let m = magnitude v;
          s1 = s\<lparr>currentData := (currentData s)\<lparr>cd_magneticField := Some m\<rparr>\<rparr>
      in case baselineData s1 of
           None \<Rightarrow> s1
         | Some b \<Rightarrow>
             (case ss_magneticField (bl_sensors b) of
                None \<Rightarrow> s1
              | Some b_mag \<Rightarrow>
                  if truthy b_mag then
                    (let change = jabs (jsub m b_mag);
                         s2 = (if jgt change threshold_magneticField
                               then snd (recordAnomaly c (magnetic_anomaly change v) s1) else s1)
                     in if jlt (jabs (jsub m (Fin 51))) (Fin 1)
                        then snd (recordAnomaly c (magnetic_51 m) s2) else s2)
                  else s1))"

section \<open>SensorMonitor: frequency patterns\<close>

text \<open>\<open>findPeaks\<close>: the items at indices \<open>1 .. length - 2\<close> strictly above both neighbours.\<close>

definition findPeaks :: "buffer_item list \<Rightarrow> buffer_item list" where
  "findPeaks buffer =
     map (\<lambda>i. buffer ! i)
       (filter (\<lambda>i. jgt (bi_value (buffer ! i)) (bi_value (buffer ! (i - 1))) \<and>
                     jgt (bi_value (buffer ! i)) (bi_value (buffer ! (i + 1))))
          [1 ..< length buffer - 1])"

text \<open>\<open>estimateFrequency\<close>: \<open>0\<close> stands for "no estimate".\<close>

definition estimateFrequency :: "buffer_item list \<Rightarrow> jsnum" where
  "estimateFrequency peaks =
     (if length peaks < 2 then Fin 0
      else
        (let totalPeriod =
               fold (\<lambda>i t. t + (bi_timestamp (peaks ! i) - bi_timestamp (peaks ! (i - 1))))
                 [1 ..< length peaks] 0;
             avgPeriod = jdiv (jint totalPeriod) (jnat (length peaks - 1))
         in jdiv (Fin 1000) avgPeriod))"

text \<open>
  The analysis step of \<open>detectFrequencyPattern\<close>: the frequency it computes for a buffer,
  \<open>None\<close> when the guard \<open>buffer.length > 10\<close> keeps it from estimating at all.
\<close>

definition analysedFrequency :: "buffer_item list \<Rightarrow> jsnum option" where
  "analysedFrequency buffer =
     (if 10 < length buffer then Some (estimateFrequency (findPeaks buffer)) else None)"

definition frequency_match :: "string \<Rightarrow> jsnum \<Rightarrow> jsnum \<Rightarrow> anomaly" where
  "frequency_match sensorType frequency targetFreq =
     (mk_anomaly (''frequency_match_'' @ sensorType) frequency
        (Shown (sensorType @ '' resonating at '') targetFreq '' Hz!'') ''high'')
     \<lparr>an_targetFreq := Some targetFreq\<rparr>"

text \<open>
  \<open>frequencyBuffer\<close> is the stored buffer of a channel, empty where the source would create
  it, and \<open>pushed\<close> that buffer after the push: \<open>buffer\<close> in the source. The pruned copy is
  stored back in \<open>frequencyBuffers\<close>, while the analysis reads \<open>buffer\<close> itself, the array
  before pruning.
\<close>

definition frequencyBuffer :: "string \<Rightarrow> monitor \<Rightarrow> buffer_item list" where
  "frequencyBuffer sensorType s =
     (case frequencyBuffers s of
        None \<Rightarrow> []
      | Some fb \<Rightarrow> (case fb sensorType of None \<Rightarrow> [] | Some b \<Rightarrow> b))"

definition pushed :: "clock \<Rightarrow> jsnum \<Rightarrow> string \<Rightarrow> monitor \<Rightarrow> buffer_item list" where
  "pushed c v sensorType s =
     frequencyBuffer sensorType s @ [\<lparr>bi_value = v, bi_timestamp = now c\<rparr>]"

definition detectFrequencyPattern ::
  "clock \<Rightarrow> jsnum \<Rightarrow> jsnum \<Rightarrow> string \<Rightarrow> monitor \<Rightarrow> monitor" where
  "detectFrequencyPattern c v targetFreq sensorType s =
     (let fb = (case frequencyBuffers s of None \<Rightarrow> Map.empty | Some m \<Rightarrow> m);
          buffer = pushed c v sensorType s;
          cutoff = now c - 10000;
          s1 = s\<lparr>frequencyBuffers :=
                   Some (fb(sensorType \<mapsto> filter (\<lambda>item. cutoff < bi_timestamp item) buffer))\<rparr>
      in case analysedFrequency buffer of
           None \<Rightarrow> s1
         | Some frequency \<Rightarrow>
             if jlt (jabs (jsub frequency targetFreq)) (Fin 0.1)
             then snd (recordAnomaly c (frequency_match sensorType frequency targetFreq) s1)
             else s1)"

definition accelerometerListener :: "clock \<Rightarrow> vec3 \<Rightarrow> monitor \<Rightarrow> monitor" where
  "accelerometerListener c v s =
     (let m = magnitude v;
          s1 = s\<lparr>currentData := (currentData s)\<lparr>cd_acceleration := Some m\<rparr>\<rparr>
      in detectFrequencyPattern c m (Fin 1.038) ''acceleration'' s1)"

definition gyroscopeListener :: "clock \<Rightarrow> vec3 \<Rightarrow> monitor \<Rightarrow> monitor" where
  "gyroscopeListener c v s =
     (let m = magnitude v;
          s1 = s\<lparr>currentData := (currentData s)\<lparr>cd_rotation := Some m\<rparr>\<rparr>;
          s2 = detectFrequencyPattern c m (Fin 0.962) ''rotation_matter'' s1
      in detectFrequencyPattern c m (Fin 1.038) ''rotation_consciousness'' s2)"

section \<open>SensorMonitor: stopping\<close>

text \<open>
  \<open>stopMonitoring\<close> clears the flag, removes every subscription from the platform and
  empties the subscription list. It assigns nothing else.
\<close>

definition stopMonitoring :: "monitor \<Rightarrow> monitor" where
  "stopMonitoring s =
     s\<lparr>isMonitoring := False,
       listeners := fold removeAll (subscriptions s) (listeners s),
       subscriptions := []\<rparr>"

text \<open>The anomalies a step pushed on \<open>this.anomalies\<close>.\<close>

definition produced :: "monitor \<Rightarrow> monitor \<Rightarrow> anomaly list" where
  "produced s s' = drop (length (anomalies s)) (anomalies s')"

text \<open>What \<open>recordAnomaly\<close> makes of an anomaly literal.\<close>

definition stamp :: "clock \<Rightarrow> anomaly \<Rightarrow> anomaly" where
  "stamp c a = a\<lparr>an_timestamp := now c, an_cosmicWindow := isCosmicWindow c\<rparr>"

section \<open>DatabaseService: queries\<close>

text \<open>\<open>String.prototype.includes\<close>.\<close>

fun starts_with :: "string \<Rightarrow> string \<Rightarrow> bool" where
  "starts_with s [] = True"
| "starts_with [] (c # cs) = False"
| "starts_with (x # xs) (c # cs) = (x = c \<and> starts_with xs cs)"

fun includes_str :: "string \<Rightarrow> string \<Rightarrow> bool" where
  "includes_str [] sub = (sub = [])"
| "includes_str (x # xs) sub = (starts_with (x # xs) sub \<or> includes_str xs sub)"

text \<open>
  \<open>getAnomalies\<close>: \<open>WHERE timestamp >= ? AND timestamp <= ? ORDER BY timestamp DESC\<close>, and
  \<open>getScans\<close>: the same window \<open>ORDER BY timestamp ASC\<close>. In both directions rows of equal
  timestamp come out in insertion order: the sort is stable, descending order being
  ascending order of the negated timestamp.
\<close>

definition select_anomalies :: "int \<Rightarrow> int \<Rightarrow> anomaly_row list \<Rightarrow> anomaly_row list" where
  "select_anomalies startTime endTime rows =
     sort_key (\<lambda>r. - ar_timestamp r)
       (filter (\<lambda>r. startTime \<le> ar_timestamp r \<and> ar_timestamp r \<le> endTime) rows)"

definition select_scans :: "int \<Rightarrow> int \<Rightarrow> scan_row list \<Rightarrow> scan_row list" where
  "select_scans startTime endTime rows =
     sort_key sr_timestamp
       (filter (\<lambda>r. startTime \<le> sr_timestamp r \<and> sr_timestamp r \<le> endTime) rows)"

definition getAnomalies :: "int \<Rightarrow> int \<Rightarrow> DatabaseService \<Rightarrow> js_error + anomaly_row list" where
  "getAnomalies startTime endTime d =
     (case db d of
        None \<Rightarrow> Inl TypeError
      | Some t \<Rightarrow> Inr (select_anomalies startTime endTime (anomalies_tbl t)))"

definition getScans :: "int \<Rightarrow> int \<Rightarrow> DatabaseService \<Rightarrow> js_error + scan_row list" where
  "getScans startTime endTime d =
     (case db d of
        None \<Rightarrow> Inl TypeError
      | Some t \<Rightarrow> Inr (select_scans startTime endTime (scans_tbl t)))"

section \<open>DatabaseService: pattern analysis\<close>

record patterns =
  anomalyCount :: nat
  recentCount :: nat
  anomalySpike :: bool
  cosmicCorrelation :: jsnum
  typeDistribution :: "string \<rightharpoonup> nat"
  significanceDistribution :: "string \<rightharpoonup> jsnum"
  state51Count :: nat
  mutationCount :: nat
  hasState51 :: bool
  hasMutation :: bool
  hasCosmicCorrelation :: bool

text \<open>The three counters of the \<open>forEach\<close> over the daily anomalies.\<close>

definition count_type :: "anomaly_row \<Rightarrow> (string \<rightharpoonup> nat) \<Rightarrow> (string \<rightharpoonup> nat)" where
  "count_type a m = m(ar_type a \<mapsto> (case m (ar_type a) of None \<Rightarrow> 0 | Some n \<Rightarrow> n) + 1)"

text \<open>\<open>cosmicWindowCount\<close> as the pair of its \<open>true\<close> and \<open>false\<close> entries.\<close>

definition count_cosmic :: "anomaly_row \<Rightarrow> nat \<times> nat \<Rightarrow> nat \<times> nat" where
  "count_cosmic a w =
     (if ar_cosmic_window a = 1 then (fst w + 1, snd w) else (fst w, snd w + 1))"

text \<open>\<open>significanceCount[s] += 1\<close>: a key outside the four initial ones becomes \<open>NaN\<close>.\<close>

definition count_significance ::
  "anomaly_row \<Rightarrow> (string \<rightharpoonup> jsnum) \<Rightarrow> (string \<rightharpoonup> jsnum)" where
  "count_significance a m =
     m(ar_significance a \<mapsto>
         (case m (ar_significance a) of None \<Rightarrow> NaN | Some n \<Rightarrow> jadd n (Fin 1)))"

definition significanceCount0 :: "string \<rightharpoonup> jsnum" where
  "significanceCount0 =
     [''high'' \<mapsto> Fin 0, ''medium'' \<mapsto> Fin 0, ''low'' \<mapsto> Fin 0, ''critical'' \<mapsto> Fin 0]"

definition is_state51 :: "anomaly_row \<Rightarrow> bool" where
  "is_state51 a =
     (includes_str (ar_type a) ''51'' \<or>
      jlt (jabs (jsub (ar_value a) (Fin 51))) (Fin 1) \<or>
      jlt (jabs (jsub (ar_value a) (Fin 0.51))) (Fin 0.01))"

definition is_mutation :: "anomaly_row \<Rightarrow> bool" where
  "is_mutation a =
     (jlt (jabs (jsub (ar_value a) (Fin 0.077))) (Fin 0.001) \<or>
      jlt (jabs (jsub (ar_value a) (Fin 7.7))) (Fin 0.1) \<or>
      includes_str (ar_type a) ''777'')"

definition analyzePatterns :: "clock \<Rightarrow> DatabaseService \<Rightarrow> js_error + patterns" where
  "analyzePatterns c d =
     (let oneHourAgo = now c - 3600000;
          oneDayAgo = now c - 86400000
      in case getAnomalies oneHourAgo (now c) d of
           Inl e \<Rightarrow> Inl e
         | Inr recentAnomalies \<Rightarrow>
             (case getAnomalies oneDayAgo (now c) d of
                Inl e \<Rightarrow> Inl e
              | Inr dailyAnomalies \<Rightarrow>
                  (let typeCount = fold count_type dailyAnomalies Map.empty;
                       cosmicWindowCount = fold count_cosmic dailyAnomalies (0, 0);
                       significanceCount =
                         fold count_significance dailyAnomalies significanceCount0;
                       spike = jgt (jnat (length recentAnomalies))
                                 (jmul (jdiv (jnat (length dailyAnomalies)) (Fin 24)) (Fin 2));
                       corr = jdiv (jnat (fst cosmicWindowCount))
                                (jnat (fst cosmicWindowCount + snd cosmicWindowCount));
                       state51Patterns = filter is_state51 dailyAnomalies;
                       mutationPatterns = filter is_mutation dailyAnomalies
                   in Inr \<lparr> anomalyCount = length dailyAnomalies,
                            recentCount = length recentAnomalies,
                            anomalySpike = spike,
                            cosmicCorrelation = corr,
                            typeDistribution = typeCount,
                            significanceDistribution = significanceCount,
                            state51Count = length state51Patterns,
                            mutationCount = length mutationPatterns,
                            hasState51 = (0 < length state51Patterns),
                            hasMutation = (0 < length mutationPatterns),
                            hasCosmicCorrelation = jgt corr (Fin 0.5) \<rparr>)))"

section \<open>DatabaseService: the daily report\<close>

text \<open>
  \<open>reduce((a, b) => a + b, 0)\<close> and \<open>calculateTrend\<close>. \<open>percentChange\<close> is the local of that
  name, as the source computes it once the length guard has passed.
\<close>

definition sum_values :: "jsnum list \<Rightarrow> jsnum" where
  "sum_values xs = foldl jadd (Fin 0) xs"

definition percentChange :: "jsnum list \<Rightarrow> jsnum" where
  "percentChange vals =
     (let firstHalf = take (length vals div 2) vals;
          secondHalf = drop (length vals div 2) vals;
          firstAvg = jdiv (sum_values firstHalf) (jnat (length firstHalf));
          secondAvg = jdiv (sum_values secondHalf) (jnat (length secondHalf));
          change = jsub secondAvg firstAvg
      in jmul (jdiv change firstAvg) (Fin 100))"

definition calculateTrend :: "jsnum list \<Rightarrow> js_text" where
  "calculateTrend vals =
     (if length vals < 2 then Lit ''stable''
      else
        (let p = percentChange vals
         in if jlt (jabs p) (Fin 1) then Lit ''stable''
            else if jgt p (Fin 0) then Fixed1 ''increasing '' p ''%''
            else Fixed1 ''decreasing '' (jabs p) ''%''))"

text \<open>
  The \<open>Date\<close> argument of \<open>generateDailyReport\<close>, given by the three values the function
  reads from it through the platform: local midnight and the last millisecond of the local
  day (\<open>setHours\<close>, \<open>getTime\<close>), and the date part of \<open>toISOString()\<close>.
\<close>

record js_date =
  startOfDay :: int
  endOfDay :: int
  isoDate :: string

text \<open>
  The anomaly filter of the State 51 rate: \<open>scans.find\<close> returns the first scan, in query
  order, less than 60000 ms from the anomaly, and the anomaly counts when that scan is
  flagged.
\<close>

definition near_active_scan :: "scan_row list \<Rightarrow> anomaly_row \<Rightarrow> bool" where
  "near_active_scan scans a =
     (case find (\<lambda>s. \<bar>sr_timestamp s - ar_timestamp a\<bar> < 60000) scans of
        None \<Rightarrow> False
      | Some scan \<Rightarrow> sr_state51_active scan = 1)"

definition state51AnomalyRate :: "anomaly_row list \<Rightarrow> scan_row list \<Rightarrow> jsnum" where
  "state51AnomalyRate anoms scans =
     (let state51ActiveScans = filter (\<lambda>s. sr_state51_active s = 1) scans
      in if 0 < length state51ActiveScans
         then jdiv (jnat (length (filter (near_active_scan scans) anoms)))
                (jnat (length state51ActiveScans))
         else Fin 0)"

text \<open>
  The report object built between the two queries and the save: the body of
  \<open>generateDailyReport\<close> from \<open>const report\<close> to the last \<open>keyFindings.push\<close>.
\<close>

definition buildReport :: "js_date \<Rightarrow> anomaly_row list \<Rightarrow> scan_row list \<Rightarrow> report" where
  "buildReport date anoms scans =
     (let total = length anoms;
          cosmic = length (filter (\<lambda>a. ar_cosmic_window a = 1) anoms);
          s51 = length (filter (\<lambda>a. includes_str (ar_type a) ''51'') anoms);
          bat = length (filter (\<lambda>a. includes_str (ar_type a) ''battery'') anoms);
          freq = length (filter (\<lambda>a. includes_str (ar_type a) ''frequency'') anoms);
          rate = state51AnomalyRate anoms scans
      in \<lparr> rp_date = isoDate date,
           totalAnomalies = total,
           highSignificance =
             length (filter (\<lambda>a. ar_significance a = ''high'' \<or> ar_significance a = ''critical'')
                       anoms),
           cosmicWindowAnomalies = cosmic,
           state51Correlations = s51,
           batteryAnomalies = bat,
           magneticAnomalies = length (filter (\<lambda>a. includes_str (ar_type a) ''magnetic'') anoms),
           frequencyMatches = freq,
           rp_trends =
             (if 0 < length scans
              then Some \<lparr> tr_battery = calculateTrend (map sr_battery_level scans),
                          tr_magnetic = calculateTrend (map sr_magnetic_field scans),
                          tr_scanCount = length scans \<rparr>
              else None),
           rp_state51Effect =
             \<lparr> activePeriods = length (filter (\<lambda>s. sr_state51_active s = 1) scans),
               anomalyRate = rate,
               correlation = (if jgt rate (Fin 0.1) then ''positive'' else ''none'') \<rparr>,
           keyFindings =
             (if 5 < s51 then [''Multiple State 51 resonances detected''] else []) @
             (if jgt (jdiv (jnat cosmic) (jnat total)) (Fin 0.5)
              then [''High cosmic window correlation''] else []) @
             (if 0 < bat then [''Battery anomalies detected''] else []) @
             (if 0 < freq then [''Quantum frequency matches found''] else []) \<rparr>)"

definition report_to_row :: "nat \<Rightarrow> report \<Rightarrow> report_row" where
  "report_to_row i r =
     \<lparr> rr_id = i, rr_date = rp_date r, rr_total_anomalies = totalAnomalies r,
       rr_high_significance_count = highSignificance r,
       rr_cosmic_window_anomalies = cosmicWindowAnomalies r,
       rr_state51_correlations = state51Correlations r,
       rr_battery_anomalies = batteryAnomalies r,
       rr_magnetic_anomalies = magneticAnomalies r,
       rr_frequency_matches = frequencyMatches r,
       rr_report_data = r \<rparr>"

text \<open>
  \<open>saveDailyReport\<close>: \<open>INSERT OR REPLACE\<close> on a table whose \<open>date\<close> column is \<open>UNIQUE\<close>. The
  rows holding the new row's date are deleted, then the new row is inserted under the next
  \<open>AUTOINCREMENT\<close> id.
\<close>

definition saveDailyReport :: "report \<Rightarrow> DatabaseService \<Rightarrow> js_error + DatabaseService" where
  "saveDailyReport r d =
     (case db d of
        None \<Rightarrow> Inl TypeError
      | Some t \<Rightarrow>
          if accepts_writes t
          then Inr (d\<lparr>db := Some (t\<lparr>daily_reports_tbl :=
                                        filter (\<lambda>row. rr_date row \<noteq> rp_date r)
                                          (daily_reports_tbl t) @
                                        [report_to_row (Suc (daily_reports_seq t)) r],
                                      daily_reports_seq := Suc (daily_reports_seq t)\<rparr>)\<rparr>)
          else Inl SQLError)"

definition generateDailyReport ::
  "js_date \<Rightarrow> DatabaseService \<Rightarrow> js_error + (report \<times> DatabaseService)" where
  "generateDailyReport date d =
     (case getAnomalies (startOfDay date) (endOfDay date) d of
        Inl e \<Rightarrow> Inl e
      | Inr anoms \<Rightarrow>
          (case getScans (startOfDay date) (endOfDay date) d of
             Inl e \<Rightarrow> Inl e
           | Inr scans \<Rightarrow>
               (let r = buildReport date anoms scans
                in case saveDailyReport r d of
                     Inl e \<Rightarrow> Inl e
                   | Inr d' \<Rightarrow> Inr (r, d'))))"

section \<open>The rate as the specification words it\<close>

text \<open>
  Follows the specification's words, not the source: the fraction of the day's anomalies
  whose timestamp is within 60 seconds of a scan flagged generation-active.
\<close>

definition spec_anomalyRate :: "anomaly_row list \<Rightarrow> scan_row list \<Rightarrow> jsnum" where
  "spec_anomalyRate anoms scans =
     jdiv (jnat (length (filter
             (\<lambda>a. list_ex (\<lambda>s. sr_state51_active s = 1 \<and>
                                 \<bar>sr_timestamp s - ar_timestamp a\<bar> \<le> 60000) scans) anoms)))
       (jnat (length anoms))"

section \<open>Sample data\<close>

definition demo_clock :: "int \<Rightarrow> clock" where
  "demo_clock t = \<lparr> now = t, hours = 12 \<rparr>"

definition demo_baseline :: "real \<Rightarrow> baseline" where
  "demo_baseline level =
     \<lparr> bl_timestamp = 0, bl_battery = \<lparr> bd_level = Fin level \<rparr>,
       bl_sensors = \<lparr> ss_magneticField = Some (Fin 40), ss_acceleration = None,
                      ss_rotation = None, ss_pressure = None, ss_gpsAccuracy = None \<rparr> \<rparr>"

text \<open>A baseline taken while no sensor had a last reading to report.\<close>

definition demo_baseline_bare :: baseline where
  "demo_baseline_bare =
     \<lparr> bl_timestamp = 0, bl_battery = \<lparr> bd_level = Fin 0.5 \<rparr>,
       bl_sensors = \<lparr> ss_magneticField = None, ss_acceleration = None,
                      ss_rotation = None, ss_pressure = None, ss_gpsAccuracy = None \<rparr> \<rparr>"

definition demo_monitor :: "baseline \<Rightarrow> monitor" where
  "demo_monitor b =
     (new_SensorMonitor (initialize None new_DatabaseService))
       \<lparr>isMonitoring := True, baselineData := Some b\<rparr>"

definition demo_vec :: "real \<Rightarrow> vec3" where
  "demo_vec z = \<lparr> vx = Fin 0, vy = Fin 0, vz = Fin z \<rparr>"

definition demo_anomaly :: "int \<Rightarrow> anomaly_row" where
  "demo_anomaly ts =
     \<lparr> ar_id = 0, ar_timestamp = ts, ar_type = ''gps_51'', ar_value = Fin 50,
       ar_significance = ''medium'', ar_cosmic_window = 0,
       ar_message = Lit ''GPS accuracy at State 51 value (51m)!'', ar_data = None \<rparr>"

definition demo_scan :: "int \<Rightarrow> int \<Rightarrow> scan_row" where
  "demo_scan ts active =
     \<lparr> sr_id = 0, sr_timestamp = ts, sr_battery_level = Fin 0.5, sr_magnetic_field = Fin 40,
       sr_acceleration = Fin 1, sr_rotation = Fin 0, sr_pressure = Fin 1013,
       sr_gps_accuracy = Fin 5, sr_network_type = ''WIFI'', sr_anomaly_count = 0,
       sr_cosmic_window = 0, sr_state51_active = active \<rparr>"

definition demo_date :: js_date where
  "demo_date = \<lparr> startOfDay = 0, endOfDay = 86399999, isoDate = ''1970-01-01'' \<rparr>"

text \<open>
  Ten accelerometer samples, half a second apart, swinging between 0 and 1 once a second,
  and the monitor that has received them.
\<close>

definition stale_samples :: "(int \<times> real) list" where
  "stale_samples =
     [(0, 0), (500, 1), (1000, 0), (1500, 1), (2000, 0),
      (2500, 1), (3000, 0), (3500, 1), (4000, 0), (4500, 1)]"

definition feed :: "(int \<times> real) list \<Rightarrow> monitor \<Rightarrow> monitor" where
  "feed samples s =
     fold (\<lambda>sample. accelerometerListener (demo_clock (fst sample)) (demo_vec (snd sample)))
       samples s"

definition stale_monitor :: monitor where
  "stale_monitor = feed stale_samples (demo_monitor (demo_baseline 0.5))"

text \<open>A monitor whose database is open while the engine rejects every \<open>INSERT\<close>.\<close>

definition full_disk_monitor :: monitor where
  "full_disk_monitor =
     (demo_monitor (demo_baseline 0.5))
       \<lparr>database := \<lparr> db = Some (empty_tables\<lparr>accepts_writes := False\<rparr>) \<rparr>\<rparr>"

section \<open>Helper facts\<close>

lemma anomalies_recordAnomaly:
  "anomalies (snd (recordAnomaly c a s)) = anomalies s @ [stamp c a]"
  by (simp add: recordAnomaly_def stamp_def triggerAlert_def Let_def split: sum.split)

lemma magnitude_z: "magnitude (demo_vec z) = Fin \<bar>z\<bar>"
  by (simp add: magnitude_def demo_vec_def)

lemma find_first_iff:
  "(case find P xs of None \<Rightarrow> False | Some x \<Rightarrow> Q x) =
     (\<exists>i<length xs. P (xs ! i) \<and> Q (xs ! i) \<and> (\<forall>j<i. \<not> P (xs ! j)))"
proof (cases "find P xs")
  case None
  have "\<not> P (xs ! i)" if "i < length xs" for i
    using None that by (metis find_None_iff nth_mem)
  then have "\<not> (\<exists>i<length xs. P (xs ! i) \<and> Q (xs ! i) \<and> (\<forall>j<i. \<not> P (xs ! j)))"
    by blast
  moreover have "\<not> (case find P xs of None \<Rightarrow> False | Some x \<Rightarrow> Q x)"
    by (simp add: None)
  ultimately show ?thesis by blast
next
  case (Some x)
  then obtain i where i: "i < length xs" "P (xs ! i)" "x = xs ! i" "\<forall>j<i. \<not> P (xs ! j)"
    by (metis find_Some_iff)
  have uniq: "k = i" if "k < length xs" "P (xs ! k)" "\<forall>j<k. \<not> P (xs ! j)" for k
    using that i by (meson nat_neq_iff)
  have lhs: "(case find P xs of None \<Rightarrow> False | Some x \<Rightarrow> Q x) = Q (xs ! i)"
    by (simp add: Some i(3))
  have rhs: "(\<exists>k<length xs. P (xs ! k) \<and> Q (xs ! k) \<and> (\<forall>j<k. \<not> P (xs ! j))) = Q (xs ! i)"
    using uniq i by blast
  show ?thesis unfolding lhs rhs ..
qed

lemma rp_date_buildReport: "rp_date (buildReport date anoms scans) = isoDate date"
  by (simp add: buildReport_def Let_def)

lemma generateDailyReport_open:
  assumes "db d = Some t" and "accepts_writes t"
  shows "generateDailyReport date d =
           Inr (buildReport date
                  (select_anomalies (startOfDay date) (endOfDay date) (anomalies_tbl t))
                  (select_scans (startOfDay date) (endOfDay date) (scans_tbl t)),
                d\<lparr>db := Some (t\<lparr>daily_reports_tbl :=
                        filter (\<lambda>row. rr_date row \<noteq> isoDate date) (daily_reports_tbl t) @
                        [report_to_row (Suc (daily_reports_seq t))
                           (buildReport date
                              (select_anomalies (startOfDay date) (endOfDay date) (anomalies_tbl t))
                              (select_scans (startOfDay date) (endOfDay date) (scans_tbl t)))],
                      daily_reports_seq := Suc (daily_reports_seq t)\<rparr>)\<rparr>)"
  using assms
  by (simp add: generateDailyReport_def getAnomalies_def getScans_def saveDailyReport_def
        rp_date_buildReport Let_def)

section \<open>Pattern analysis on an empty day\<close>

text \<open>
  C1. The specification asks \<open>analyzePatterns\<close> to return \<open>cosmicCorrelation = 0\<close> when the
  24-hour anomaly set is empty. The source divides \<open>cosmicWindowCount.true\<close> by the sum of
  both counters without a guard: on an opened database whose 24-hour window holds no anomaly
  the call succeeds with \<open>anomalyCount = 0\<close> and \<open>cosmicCorrelation = NaN\<close>.
\<close>

theorem analyzePatterns_empty_daily_NaN:
  assumes "db d = Some t"
      and "filter (\<lambda>r. now c - 86400000 \<le> ar_timestamp r \<and> ar_timestamp r \<le> now c)
             (anomalies_tbl t) = []"
  shows "\<exists>p. analyzePatterns c d = Inr p \<and> anomalyCount p = 0 \<and> cosmicCorrelation p = NaN \<and>
             cosmicCorrelation p \<noteq> Fin 0"
  using assms
  by (simp add: analyzePatterns_def getAnomalies_def select_anomalies_def Let_def jnat_def)

theorem analyzePatterns_empty_daily_NaN_witness:
  "db (initialize None new_DatabaseService) = Some empty_tables \<and>
   filter (\<lambda>r. now (demo_clock 90000000) - 86400000 \<le> ar_timestamp r \<and>
                ar_timestamp r \<le> now (demo_clock 90000000))
     (anomalies_tbl empty_tables) = [] \<and>
   (\<exists>p. analyzePatterns (demo_clock 90000000) (initialize None new_DatabaseService) = Inr p \<and>
        anomalyCount p = 0 \<and> cosmicCorrelation p = NaN \<and> cosmicCorrelation p \<noteq> Fin 0)"
proof -
  have h1: "db (initialize None new_DatabaseService) = Some empty_tables"
    by (simp add: initialize_def new_DatabaseService_def)
  have h2: "filter (\<lambda>r. now (demo_clock 90000000) - 86400000 \<le> ar_timestamp r \<and>
                ar_timestamp r \<le> now (demo_clock 90000000))
     (anomalies_tbl empty_tables) = []"
    by (simp add: empty_tables_def)
  show ?thesis
    using h1 h2 analyzePatterns_empty_daily_NaN [OF h1 h2] by blast
qed

section \<open>The magnetometer rules\<close>

text \<open>
  C2. The specification asks a sample of magnitude 51.0 to yield a \<open>magnetic_51\<close> anomaly
  always. The source tests \<open>|magnitude - 51| < 1\<close> inside the guard on the baseline's
  magnetometer reading, which the test does not use: with a baseline whose snapshot has no
  magnetometer reading, or the reading \<open>0\<close>, a sample of magnitude exactly 51.0 meets the
  condition of the rule and the listener records nothing.
\<close>

theorem magnetic_51_skipped_without_reading:
  assumes "baselineData s = Some b"
      and "ss_magneticField (bl_sensors b) = None \<or> ss_magneticField (bl_sensors b) = Some (Fin 0)"
      and "magnitude v = Fin 51"
  shows "jlt (jabs (jsub (magnitude v) (Fin 51))) (Fin 1) \<and>
         produced s (magnetometerListener c v s) = []"
  using assms
  by (auto simp add: magnetometerListener_def produced_def Let_def jsub_def)

theorem magnetic_51_skipped_without_reading_witness:
  "baselineData (demo_monitor demo_baseline_bare) = Some demo_baseline_bare \<and>
   ss_magneticField (bl_sensors demo_baseline_bare) = None \<and>
   magnitude (demo_vec 51) = Fin 51 \<and>
   produced (demo_monitor demo_baseline_bare)
     (magnetometerListener (demo_clock 1000) (demo_vec 51) (demo_monitor demo_baseline_bare)) = []"
proof -
  have b: "baselineData (demo_monitor demo_baseline_bare) = Some demo_baseline_bare"
    by (simp add: demo_monitor_def)
  have m: "ss_magneticField (bl_sensors demo_baseline_bare) = None"
    by (simp add: demo_baseline_bare_def)
  have v: "magnitude (demo_vec 51) = Fin 51"
    by (simp add: magnitude_z)
  show ?thesis
    using b m v
      magnetic_51_skipped_without_reading
        [of "demo_monitor demo_baseline_bare" demo_baseline_bare "demo_vec 51" "demo_clock 1000"]
    by blast
qed

text \<open>
  Where the baseline holds a magnetometer reading other than \<open>0\<close> and \<open>NaN\<close>, a sample of
  magnitude exactly 51.0 makes the listener record exactly one \<open>magnetic_51\<close> anomaly, of
  significance \<open>high\<close>; a sample of magnitude 52.5 never makes it record one.
\<close>

lemma magnetic_51_with_reading:
  "(baselineData s = Some b \<and> ss_magneticField (bl_sensors b) = Some bm \<and> truthy bm \<and>
    magnitude v = Fin 51 \<longrightarrow>
      filter (\<lambda>a. an_type a = ''magnetic_51'') (produced s (magnetometerListener c v s)) =
        [stamp c (magnetic_51 (Fin 51))] \<and>
      an_type (stamp c (magnetic_51 (Fin 51))) = ''magnetic_51'' \<and>
      an_significance (stamp c (magnetic_51 (Fin 51))) = ''high'') \<and>
   (magnitude v = Fin 52.5 \<longrightarrow>
      filter (\<lambda>a. an_type a = ''magnetic_51'') (produced s (magnetometerListener c v s)) = [])"
  by (simp add: magnetometerListener_def produced_def Let_def jsub_def anomalies_recordAnomaly
        stamp_def magnetic_51_def magnetic_anomaly_def mk_anomaly_def split: option.split)

section \<open>The State 51 rate of the daily report\<close>

text \<open>
  C3, as stated: \<open>anomalyRate\<close> is the fraction of the day's anomalies lying within 60
  seconds of a scan flagged active. With one flagged scan at time 0 and two anomalies at
  times 1000 and 0, that fraction is 1, while the report holds 2: the source divides by the
  number of flagged scans, not by the number of anomalies.
\<close>

theorem anomalyRate_not_a_fraction_counterexample:
  "anomalyRate (rp_state51Effect
     (buildReport demo_date [demo_anomaly 1000, demo_anomaly 0] [demo_scan 0 1])) = Fin 2 \<and>
   spec_anomalyRate [demo_anomaly 1000, demo_anomaly 0] [demo_scan 0 1] = Fin 1"
  by (simp add: buildReport_def state51AnomalyRate_def near_active_scan_def spec_anomalyRate_def
        demo_anomaly_def demo_scan_def jnat_def Let_def)

text \<open>
  C3, amended. \<open>anomalyRate\<close> is \<open>0\<close> when no scan of the day is flagged active; otherwise it
  is the number of the day's anomalies that count, divided by the number of flagged scans.
  An anomaly counts when the first scan of the day, in ascending timestamp order, whose
  timestamp differs from the anomaly's by less than 60000 ms is flagged active. The label is
  \<open>positive\<close> exactly when the rate is greater than 0.1, and \<open>none\<close> otherwise.
\<close>

theorem state51Effect_rate_and_label:
  "anomalyRate (rp_state51Effect (buildReport date anoms scans)) =
     (if filter (\<lambda>s. sr_state51_active s = 1) scans = [] then Fin 0
      else jdiv (jnat (length (filter (near_active_scan scans) anoms)))
             (jnat (length (filter (\<lambda>s. sr_state51_active s = 1) scans)))) \<and>
   near_active_scan scans a =
     (\<exists>i<length scans. \<bar>sr_timestamp (scans ! i) - ar_timestamp a\<bar> < 60000 \<and>
        sr_state51_active (scans ! i) = 1 \<and>
        (\<forall>j<i. \<not> \<bar>sr_timestamp (scans ! j) - ar_timestamp a\<bar> < 60000)) \<and>
   (correlation (rp_state51Effect (buildReport date anoms scans)) = ''positive'') =
     jgt (anomalyRate (rp_state51Effect (buildReport date anoms scans))) (Fin 0.1) \<and>
   (correlation (rp_state51Effect (buildReport date anoms scans)) = ''none'') =
     (\<not> jgt (anomalyRate (rp_state51Effect (buildReport date anoms scans))) (Fin 0.1))"
proof -
  have n: "near_active_scan scans a =
     (\<exists>i<length scans. \<bar>sr_timestamp (scans ! i) - ar_timestamp a\<bar> < 60000 \<and>
        sr_state51_active (scans ! i) = 1 \<and>
        (\<forall>j<i. \<not> \<bar>sr_timestamp (scans ! j) - ar_timestamp a\<bar> < 60000))"
    unfolding near_active_scan_def by (rule find_first_iff)
  have r: "anomalyRate (rp_state51Effect (buildReport date anoms scans)) =
     (if filter (\<lambda>s. sr_state51_active s = 1) scans = [] then Fin 0
      else jdiv (jnat (length (filter (near_active_scan scans) anoms)))
             (jnat (length (filter (\<lambda>s. sr_state51_active s = 1) scans))))"
    by (simp add: buildReport_def state51AnomalyRate_def Let_def)
  have l: "correlation (rp_state51Effect (buildReport date anoms scans)) =
     (if jgt (anomalyRate (rp_state51Effect (buildReport date anoms scans))) (Fin 0.1)
      then ''positive'' else ''none'')"
    by (simp add: buildReport_def Let_def)
  have p: "(correlation (rp_state51Effect (buildReport date anoms scans)) = ''positive'') =
     jgt (anomalyRate (rp_state51Effect (buildReport date anoms scans))) (Fin 0.1)"
    unfolding l by simp
  have q: "(correlation (rp_state51Effect (buildReport date anoms scans)) = ''none'') =
     (\<not> jgt (anomalyRate (rp_state51Effect (buildReport date anoms scans))) (Fin 0.1))"
    unfolding l by simp
  from r n p q show ?thesis by blast
qed

theorem state51Effect_rate_and_label_witness:
  "anomalyRate (rp_state51Effect
     (buildReport demo_date [demo_anomaly 1000, demo_anomaly 0] [demo_scan 0 1])) = Fin 2 \<and>
   near_active_scan [demo_scan 0 1] (demo_anomaly 1000) \<and>
   correlation (rp_state51Effect
     (buildReport demo_date [demo_anomaly 1000, demo_anomaly 0] [demo_scan 0 1])) = ''positive''"
  using state51Effect_rate_and_label
    [of demo_date "[demo_anomaly 1000, demo_anomaly 0]" "[demo_scan 0 1]" "demo_anomaly 1000"]
  by (simp add: near_active_scan_def demo_anomaly_def demo_scan_def jnat_def jgt_def)

section \<open>Frequency analysis on a pruned buffer\<close>

text \<open>
  C4. The specification asks that a channel buffer of fewer than 11 points, pruned to the
  last 10 seconds on every insert, gives no estimate and no frequency anomaly. The source
  stores the pruned copy and analyses the array before pruning. The monitor below received
  ten accelerometer samples without recording anything; the next sample arrives 95 seconds
  later. After that call the \<open>acceleration\<close> buffer holds one point, the new one, and yet
  the call has recorded a \<open>frequency_match_acceleration\<close> anomaly of 1 Hz, computed from
  the ten stale points, and raised its alert.
\<close>

theorem stale_points_give_frequency_match:
  "length (frequencyBuffer ''acceleration'' stale_monitor) = 10 \<and>
   anomalies stale_monitor = [] \<and>
   frequencyBuffer ''acceleration''
     (accelerometerListener (demo_clock 100000) (demo_vec 0) stale_monitor) =
     [\<lparr>bi_value = Fin 0, bi_timestamp = 100000\<rparr>] \<and>
   produced stale_monitor
     (accelerometerListener (demo_clock 100000) (demo_vec 0) stale_monitor) =
     [stamp (demo_clock 100000) (frequency_match ''acceleration'' (Fin 1) (Fin 1.038))] \<and>
   alerts (accelerometerListener (demo_clock 100000) (demo_vec 0) stale_monitor) =
     [stamp (demo_clock 100000) (frequency_match ''acceleration'' (Fin 1) (Fin 1.038))]"
proof -
  have step: "accelerometerListener (demo_clock t) (demo_vec z) s =
      s\<lparr>currentData := (currentData s)\<lparr>cd_acceleration := Some (Fin \<bar>z\<bar>)\<rparr>,
        frequencyBuffers :=
          Some ((case frequencyBuffers s of None \<Rightarrow> Map.empty | Some m \<Rightarrow> m)
                  (''acceleration'' \<mapsto>
                     filter (\<lambda>item. t - 10000 < bi_timestamp item)
                       (frequencyBuffer ''acceleration'' s @
                          [\<lparr>bi_value = Fin \<bar>z\<bar>, bi_timestamp = t\<rparr>])))\<rparr>"
    if "length (frequencyBuffer ''acceleration'' s) < 10" for t z s
    using that
    by (simp add: accelerometerListener_def detectFrequencyPattern_def pushed_def
          analysedFrequency_def frequencyBuffer_def magnitude_z demo_clock_def Let_def)
  have stale: "stale_monitor =
      (demo_monitor (demo_baseline 0.5))
        \<lparr>currentData :=
           (currentData (demo_monitor (demo_baseline 0.5)))\<lparr>cd_acceleration := Some (Fin 1)\<rparr>,
         frequencyBuffers :=
           Some [''acceleration'' \<mapsto>
             [\<lparr>bi_value = Fin 0, bi_timestamp = 0\<rparr>, \<lparr>bi_value = Fin 1, bi_timestamp = 500\<rparr>,
              \<lparr>bi_value = Fin 0, bi_timestamp = 1000\<rparr>, \<lparr>bi_value = Fin 1, bi_timestamp = 1500\<rparr>,
              \<lparr>bi_value = Fin 0, bi_timestamp = 2000\<rparr>, \<lparr>bi_value = Fin 1, bi_timestamp = 2500\<rparr>,
              \<lparr>bi_value = Fin 0, bi_timestamp = 3000\<rparr>, \<lparr>bi_value = Fin 1, bi_timestamp = 3500\<rparr>,
              \<lparr>bi_value = Fin 0, bi_timestamp = 4000\<rparr>, \<lparr>bi_value = Fin 1, bi_timestamp = 4500\<rparr>]]\<rparr>"
    by (simp add: stale_monitor_def feed_def stale_samples_def step frequencyBuffer_def
          demo_monitor_def new_SensorMonitor_def)
  have peaks: "findPeaks
       [\<lparr>bi_value = Fin 0, bi_timestamp = 0\<rparr>, \<lparr>bi_value = Fin 1, bi_timestamp = 500\<rparr>,
        \<lparr>bi_value = Fin 0, bi_timestamp = 1000\<rparr>, \<lparr>bi_value = Fin 1, bi_timestamp = 1500\<rparr>,
        \<lparr>bi_value = Fin 0, bi_timestamp = 2000\<rparr>, \<lparr>bi_value = Fin 1, bi_timestamp = 2500\<rparr>,
        \<lparr>bi_value = Fin 0, bi_timestamp = 3000\<rparr>, \<lparr>bi_value = Fin 1, bi_timestamp = 3500\<rparr>,
        \<lparr>bi_value = Fin 0, bi_timestamp = 4000\<rparr>, \<lparr>bi_value = Fin 1, bi_timestamp = 4500\<rparr>,
        \<lparr>bi_value = Fin 0, bi_timestamp = 100000\<rparr>] =
       [\<lparr>bi_value = Fin 1, bi_timestamp = 500\<rparr>, \<lparr>bi_value = Fin 1, bi_timestamp = 1500\<rparr>,
        \<lparr>bi_value = Fin 1, bi_timestamp = 2500\<rparr>, \<lparr>bi_value = Fin 1, bi_timestamp = 3500\<rparr>,
        \<lparr>bi_value = Fin 1, bi_timestamp = 4500\<rparr>]"
    by (simp add: findPeaks_def jgt_def upt_rec)
  have freq: "estimateFrequency
       [\<lparr>bi_value = Fin 1, bi_timestamp = 500\<rparr>, \<lparr>bi_value = Fin 1, bi_timestamp = 1500\<rparr>,
        \<lparr>bi_value = Fin 1, bi_timestamp = 2500\<rparr>, \<lparr>bi_value = Fin 1, bi_timestamp = 3500\<rparr>,
        \<lparr>bi_value = Fin 1, bi_timestamp = 4500\<rparr>] = Fin 1"
    by (simp add: estimateFrequency_def jint_def jnat_def upt_rec Let_def)
  have sig: "an_significance (stamp c (frequency_match ty f g)) = ''high''" for c ty f g
    by (simp add: stamp_def frequency_match_def mk_anomaly_def)
  show ?thesis
    unfolding stale
    by (simp add: accelerometerListener_def detectFrequencyPattern_def pushed_def
          analysedFrequency_def frequencyBuffer_def magnitude_z demo_clock_def peaks freq
          jsub_def produced_def recordAnomaly_def saveAnomaly_def triggerAlert_def
          demo_monitor_def new_SensorMonitor_def initialize_def new_DatabaseService_def
          empty_tables_def stamp_def frequency_match_def mk_anomaly_def isCosmicWindow_def
          Let_def)
qed

text \<open>
  The guard itself reads the array with the new sample pushed, before pruning: where that
  array has fewer than 11 points, no frequency is computed and nothing is recorded.
\<close>

lemma guard_reads_pushed_buffer:
  "(length buffer < 11 \<longrightarrow> analysedFrequency buffer = None) \<and>
   (length (pushed c v sensorType s) < 11 \<longrightarrow>
      analysedFrequency (pushed c v sensorType s) = None \<and>
      produced s (detectFrequencyPattern c v targetFreq sensorType s) = [] \<and>
      alerts (detectFrequencyPattern c v targetFreq sensorType s) = alerts s)"
  by (simp add: analysedFrequency_def detectFrequencyPattern_def produced_def Let_def)

section \<open>Stopping the monitor\<close>

text \<open>
  C5, as stated: after \<open>stopMonitoring\<close> every frequency buffer is empty. It fails after one
  accelerometer sample: the sample is still in the \<open>acceleration\<close> buffer once
  \<open>stopMonitoring\<close> has returned.
\<close>

theorem stopMonitoring_keeps_buffer_counterexample:
  "frequencyBuffer ''acceleration''
     (stopMonitoring (accelerometerListener (demo_clock 1000) (demo_vec 1)
        ((new_SensorMonitor new_DatabaseService)\<lparr>isMonitoring := True\<rparr>))) =
   [\<lparr>bi_value = Fin 1, bi_timestamp = 1000\<rparr>]"
  by (simp add: stopMonitoring_def accelerometerListener_def detectFrequencyPattern_def
        pushed_def frequencyBuffer_def analysedFrequency_def new_SensorMonitor_def magnitude_z
        demo_clock_def Let_def)

text \<open>
  C5, amended. \<open>stopMonitoring\<close> clears the monitoring flag and the subscription list and
  leaves every per-channel frequency buffer as it was: the buffers live as long as the
  monitor object.
\<close>

theorem stopMonitoring_leaves_buffers:
  "frequencyBuffers (stopMonitoring s) = frequencyBuffers s \<and>
   frequencyBuffer sensorType (stopMonitoring s) = frequencyBuffer sensorType s \<and>
   isMonitoring (stopMonitoring s) = False \<and>
   subscriptions (stopMonitoring s) = []"
  by (simp add: stopMonitoring_def frequencyBuffer_def)

section \<open>Saving the daily report twice\<close>

text \<open>
  C6. The daily report is generated twice for one date, that is, for \<open>Date\<close> values with the
  same stored key (the date part of \<open>toISOString()\<close>), and the anomalies and scans tables
  may change in any way in between. After the first generation the table \<open>daily_reports\<close>
  holds exactly one row for the key: the first report. After the second it again holds
  exactly one: each column of that row, and each field of the report stored in it, is
  computed from the anomalies and scans selected at the second generation alone.
\<close>

theorem daily_report_upsert:
  fixes date1 date2 :: js_date and A :: "anomaly_row list" and S :: "scan_row list"
  defines "anoms \<equiv> select_anomalies (startOfDay date2) (endOfDay date2) A"
      and "scans \<equiv> select_scans (startOfDay date2) (endOfDay date2) S"
  assumes g1: "generateDailyReport date1 d0 = Inr (r1, d1)"
      and t1: "db d1 = Some t1"
      and key: "isoDate date2 = isoDate date1"
      and g2: "generateDailyReport date2
                 (d1\<lparr>db := Some (t1\<lparr>anomalies_tbl := A, scans_tbl := S\<rparr>)\<rparr>) = Inr (r2, d2)"
  shows "(\<exists>row1. filter (\<lambda>row. rr_date row = isoDate date1) (daily_reports_tbl t1) = [row1] \<and>
            rr_report_data row1 = r1) \<and>
         (\<exists>t2 row2.
            db d2 = Some t2 \<and>
            filter (\<lambda>row. rr_date row = isoDate date1) (daily_reports_tbl t2) = [row2] \<and>
            rr_id row2 = Suc (daily_reports_seq t1) \<and>
            rr_date row2 = isoDate date1 \<and>
            rr_total_anomalies row2 = length anoms \<and>
            rr_high_significance_count row2 =
              length (filter (\<lambda>a. ar_significance a = ''high'' \<or>
                                   ar_significance a = ''critical'') anoms) \<and>
            rr_cosmic_window_anomalies row2 =
              length (filter (\<lambda>a. ar_cosmic_window a = 1) anoms) \<and>
            rr_state51_correlations row2 =
              length (filter (\<lambda>a. includes_str (ar_type a) ''51'') anoms) \<and>
            rr_battery_anomalies row2 =
              length (filter (\<lambda>a. includes_str (ar_type a) ''battery'') anoms) \<and>
            rr_magnetic_anomalies row2 =
              length (filter (\<lambda>a. includes_str (ar_type a) ''magnetic'') anoms) \<and>
            rr_frequency_matches row2 =
              length (filter (\<lambda>a. includes_str (ar_type a) ''frequency'') anoms) \<and>
            rr_report_data row2 = r2 \<and>
            rp_date r2 = isoDate date1 \<and>
            totalAnomalies r2 = rr_total_anomalies row2 \<and>
            highSignificance r2 = rr_high_significance_count row2 \<and>
            cosmicWindowAnomalies r2 = rr_cosmic_window_anomalies row2 \<and>
            state51Correlations r2 = rr_state51_correlations row2 \<and>
            batteryAnomalies r2 = rr_battery_anomalies row2 \<and>
            magneticAnomalies r2 = rr_magnetic_anomalies row2 \<and>
            frequencyMatches r2 = rr_frequency_matches row2 \<and>
            rp_trends r2 =
              (if scans = [] then None
               else Some \<lparr> tr_battery = calculateTrend (map sr_battery_level scans),
                           tr_magnetic = calculateTrend (map sr_magnetic_field scans),
                           tr_scanCount = length scans \<rparr>) \<and>
            rp_state51Effect r2 =
              \<lparr> activePeriods = length (filter (\<lambda>s. sr_state51_active s = 1) scans),
                anomalyRate = state51AnomalyRate anoms scans,
                correlation = (if jgt (state51AnomalyRate anoms scans) (Fin 0.1)
                               then ''positive'' else ''none'') \<rparr> \<and>
            keyFindings r2 =
              (if 5 < rr_state51_correlations row2
               then [''Multiple State 51 resonances detected''] else []) @
              (if jgt (jdiv (jnat (rr_cosmic_window_anomalies row2))
                         (jnat (rr_total_anomalies row2))) (Fin 0.5)
               then [''High cosmic window correlation''] else []) @
              (if 0 < rr_battery_anomalies row2 then [''Battery anomalies detected''] else []) @
              (if 0 < rr_frequency_matches row2
               then [''Quantum frequency matches found''] else []))"
proof -
  have row_date: "rr_date (report_to_row i r) = rp_date r" for i r
    by (simp add: report_to_row_def)
  obtain t0 where t0: "db d0 = Some t0"
    using g1 by (cases "db d0") (simp_all add: generateDailyReport_def getAnomalies_def)
  have w0: "accepts_writes t0"
    using g1 t0
    by (cases "accepts_writes t0")
       (simp_all add: generateDailyReport_def getAnomalies_def getScans_def saveDailyReport_def
          Let_def)
  from generateDailyReport_open [OF t0 w0, of date1] g1 t1
  have r1: "rp_date r1 = isoDate date1"
    and tbl1: "daily_reports_tbl t1 =
                 filter (\<lambda>row. rr_date row \<noteq> isoDate date1) (daily_reports_tbl t0) @
                 [report_to_row (Suc (daily_reports_seq t0)) r1]"
    by (auto simp: rp_date_buildReport)
  have first: "\<exists>row1. filter (\<lambda>row. rr_date row = isoDate date1) (daily_reports_tbl t1) = [row1] \<and>
                 rr_report_data row1 = r1"
    unfolding tbl1 by (simp add: row_date r1 report_to_row_def)
  let ?t = "t1\<lparr>anomalies_tbl := A, scans_tbl := S\<rparr>"
  have dt: "db (d1\<lparr>db := Some ?t\<rparr>) = Some ?t"
    by simp
  have wt: "accepts_writes ?t"
    using g2
    by (cases "accepts_writes t1")
       (simp_all add: generateDailyReport_def getAnomalies_def getScans_def saveDailyReport_def
          Let_def)
  from generateDailyReport_open [OF dt wt, of date2] g2
  have r2: "r2 = buildReport date2 anoms scans"
    and d2: "db d2 = Some (t1\<lparr>anomalies_tbl := A, scans_tbl := S,
                daily_reports_tbl :=
                  filter (\<lambda>row. rr_date row \<noteq> isoDate date2) (daily_reports_tbl t1) @
                  [report_to_row (Suc (daily_reports_seq t1)) r2],
                daily_reports_seq := Suc (daily_reports_seq t1)\<rparr>)"
    by (auto simp: anoms_def scans_def)
  have k2: "rp_date r2 = isoDate date1"
    unfolding r2 by (simp add: rp_date_buildReport key)
  have tbl2: "filter (\<lambda>row. rr_date row = isoDate date1)
                (filter (\<lambda>row. rr_date row \<noteq> isoDate date2) (daily_reports_tbl t1) @
                 [report_to_row (Suc (daily_reports_seq t1)) r2]) =
              [report_to_row (Suc (daily_reports_seq t1)) r2]"
    by (simp add: row_date k2 key)
  have sel: "filter (\<lambda>row. rr_date row = isoDate date1)
               (daily_reports_tbl
                  (t1\<lparr>anomalies_tbl := A, scans_tbl := S,
                      daily_reports_tbl :=
                        filter (\<lambda>row. rr_date row \<noteq> isoDate date2) (daily_reports_tbl t1) @
                        [report_to_row (Suc (daily_reports_seq t1)) r2],
                      daily_reports_seq := Suc (daily_reports_seq t1)\<rparr>)) =
             [report_to_row (Suc (daily_reports_seq t1)) r2]"
    using tbl2 by simp
  have fields: "rr_id (report_to_row i r2) = i"
    "rr_date (report_to_row i r2) = isoDate date1"
    "rr_total_anomalies (report_to_row i r2) = length anoms"
    "rr_high_significance_count (report_to_row i r2) =
       length (filter (\<lambda>a. ar_significance a = ''high'' \<or>
                            ar_significance a = ''critical'') anoms)"
    "rr_cosmic_window_anomalies (report_to_row i r2) =
       length (filter (\<lambda>a. ar_cosmic_window a = 1) anoms)"
    "rr_state51_correlations (report_to_row i r2) =
       length (filter (\<lambda>a. includes_str (ar_type a) ''51'') anoms)"
    "rr_battery_anomalies (report_to_row i r2) =
       length (filter (\<lambda>a. includes_str (ar_type a) ''battery'') anoms)"
    "rr_magnetic_anomalies (report_to_row i r2) =
       length (filter (\<lambda>a. includes_str (ar_type a) ''magnetic'') anoms)"
    "rr_frequency_matches (report_to_row i r2) =
       length (filter (\<lambda>a. includes_str (ar_type a) ''frequency'') anoms)"
    "rr_report_data (report_to_row i r2) = r2" for i
    by (simp_all add: report_to_row_def k2) (simp_all add: r2 buildReport_def Let_def)
  have report: "totalAnomalies r2 = length anoms"
    "highSignificance r2 =
       length (filter (\<lambda>a. ar_significance a = ''high'' \<or>
                            ar_significance a = ''critical'') anoms)"
    "cosmicWindowAnomalies r2 = length (filter (\<lambda>a. ar_cosmic_window a = 1) anoms)"
    "state51Correlations r2 = length (filter (\<lambda>a. includes_str (ar_type a) ''51'') anoms)"
    "batteryAnomalies r2 = length (filter (\<lambda>a. includes_str (ar_type a) ''battery'') anoms)"
    "magneticAnomalies r2 = length (filter (\<lambda>a. includes_str (ar_type a) ''magnetic'') anoms)"
    "frequencyMatches r2 = length (filter (\<lambda>a. includes_str (ar_type a) ''frequency'') anoms)"
    by (simp_all add: r2 buildReport_def Let_def)
  have trends: "rp_trends r2 =
      (if scans = [] then None
       else Some \<lparr> tr_battery = calculateTrend (map sr_battery_level scans),
                   tr_magnetic = calculateTrend (map sr_magnetic_field scans),
                   tr_scanCount = length scans \<rparr>)"
    by (simp add: r2 buildReport_def Let_def)
  have effect: "rp_state51Effect r2 =
      \<lparr> activePeriods = length (filter (\<lambda>s. sr_state51_active s = 1) scans),
        anomalyRate = state51AnomalyRate anoms scans,
        correlation = (if jgt (state51AnomalyRate anoms scans) (Fin 0.1)
                       then ''positive'' else ''none'') \<rparr>"
    by (simp add: r2 buildReport_def Let_def)
  have findings: "keyFindings r2 =
      (if 5 < length (filter (\<lambda>a. includes_str (ar_type a) ''51'') anoms)
       then [''Multiple State 51 resonances detected''] else []) @
      (if jgt (jdiv (jnat (length (filter (\<lambda>a. ar_cosmic_window a = 1) anoms)))
                 (jnat (length anoms))) (Fin 0.5)
       then [''High cosmic window correlation''] else []) @
      (if 0 < length (filter (\<lambda>a. includes_str (ar_type a) ''battery'') anoms)
       then [''Battery anomalies detected''] else []) @
      (if 0 < length (filter (\<lambda>a. includes_str (ar_type a) ''frequency'') anoms)
       then [''Quantum frequency matches found''] else [])"
    by (simp add: r2 buildReport_def Let_def)
  have second: "\<exists>t2 row2.
            db d2 = Some t2 \<and>
            filter (\<lambda>row. rr_date row = isoDate date1) (daily_reports_tbl t2) = [row2] \<and>
            rr_id row2 = Suc (daily_reports_seq t1) \<and>
            rr_date row2 = isoDate date1 \<and>
            rr_total_anomalies row2 = length anoms \<and>
            rr_high_significance_count row2 =
              length (filter (\<lambda>a. ar_significance a = ''high'' \<or>
                                   ar_significance a = ''critical'') anoms) \<and>
            rr_cosmic_window_anomalies row2 =
              length (filter (\<lambda>a. ar_cosmic_window a = 1) anoms) \<and>
            rr_state51_correlations row2 =
              length (filter (\<lambda>a. includes_str (ar_type a) ''51'') anoms) \<and>
            rr_battery_anomalies row2 =
              length (filter (\<lambda>a. includes_str (ar_type a) ''battery'') anoms) \<and>
            rr_magnetic_anomalies row2 =
              length (filter (\<lambda>a. includes_str (ar_type a) ''magnetic'') anoms) \<and>
            rr_frequency_matches row2 =
              length (filter (\<lambda>a. includes_str (ar_type a) ''frequency'') anoms) \<and>
            rr_report_data row2 = r2 \<and>
            rp_date r2 = isoDate date1 \<and>
            totalAnomalies r2 = rr_total_anomalies row2 \<and>
            highSignificance r2 = rr_high_significance_count row2 \<and>
            cosmicWindowAnomalies r2 = rr_cosmic_window_anomalies row2 \<and>
            state51Correlations r2 = rr_state51_correlations row2 \<and>
            batteryAnomalies r2 = rr_battery_anomalies row2 \<and>
            magneticAnomalies r2 = rr_magnetic_anomalies row2 \<and>
            frequencyMatches r2 = rr_frequency_matches row2 \<and>
            rp_trends r2 =
              (if scans = [] then None
               else Some \<lparr> tr_battery = calculateTrend (map sr_battery_level scans),
                           tr_magnetic = calculateTrend (map sr_magnetic_field scans),
                           tr_scanCount = length scans \<rparr>) \<and>
            rp_state51Effect r2 =
              \<lparr> activePeriods = length (filter (\<lambda>s. sr_state51_active s = 1) scans),
                anomalyRate = state51AnomalyRate anoms scans,
                correlation = (if jgt (state51AnomalyRate anoms scans) (Fin 0.1)
                               then ''positive'' else ''none'') \<rparr> \<and>
            keyFindings r2 =
              (if 5 < rr_state51_correlations row2
               then [''Multiple State 51 resonances detected''] else []) @
              (if jgt (jdiv (jnat (rr_cosmic_window_anomalies row2))
                         (jnat (rr_total_anomalies row2))) (Fin 0.5)
               then [''High cosmic window correlation''] else []) @
              (if 0 < rr_battery_anomalies row2 then [''Battery anomalies detected''] else []) @
              (if 0 < rr_frequency_matches row2
               then [''Quantum frequency matches found''] else [])"
    apply (rule exI [of _ "t1\<lparr>anomalies_tbl := A, scans_tbl := S,
                daily_reports_tbl :=
                  filter (\<lambda>row. rr_date row \<noteq> isoDate date2) (daily_reports_tbl t1) @
                  [report_to_row (Suc (daily_reports_seq t1)) r2],
                daily_reports_seq := Suc (daily_reports_seq t1)\<rparr>"])
    apply (rule exI [of _ "report_to_row (Suc (daily_reports_seq t1)) r2"])
    apply (simp only: fields report trends effect findings d2 k2 sel simp_thms)
    done
  from first second show ?thesis by blast
qed

theorem daily_report_upsert_witness:
  "generateDailyReport demo_date
     \<lparr>db = Some (empty_tables\<lparr>anomalies_tbl := [demo_anomaly 1000, demo_anomaly 2000]\<rparr>)\<rparr> =
     Inr (buildReport demo_date [demo_anomaly 2000, demo_anomaly 1000] [],
          \<lparr>db = Some (empty_tables
                 \<lparr>anomalies_tbl := [demo_anomaly 1000, demo_anomaly 2000],
                  daily_reports_tbl :=
                    [report_to_row 1
                       (buildReport demo_date [demo_anomaly 2000, demo_anomaly 1000] [])],
                  daily_reports_seq := 1\<rparr>)\<rparr>) \<and>
   generateDailyReport demo_date
     (\<lparr>db = Some (empty_tables
             \<lparr>anomalies_tbl := [demo_anomaly 1000, demo_anomaly 2000],
              daily_reports_tbl :=
                [report_to_row 1
                   (buildReport demo_date [demo_anomaly 2000, demo_anomaly 1000] [])],
              daily_reports_seq := 1\<rparr>)\<rparr>
      \<lparr>db := Some (empty_tables
             \<lparr>anomalies_tbl := [demo_anomaly 1000, demo_anomaly 2000],
              daily_reports_tbl :=
                [report_to_row 1
                   (buildReport demo_date [demo_anomaly 2000, demo_anomaly 1000] [])],
              daily_reports_seq := 1\<rparr>
             \<lparr>anomalies_tbl := [demo_anomaly 1000], scans_tbl := [demo_scan 0 1]\<rparr>)\<rparr>) =
     Inr (buildReport demo_date [demo_anomaly 1000] [demo_scan 0 1],
          \<lparr>db = Some (empty_tables
                 \<lparr>anomalies_tbl := [demo_anomaly 1000], scans_tbl := [demo_scan 0 1],
                  daily_reports_tbl :=
                    [report_to_row 2 (buildReport demo_date [demo_anomaly 1000] [demo_scan 0 1])],
                  daily_reports_seq := 2\<rparr>)\<rparr>) \<and>
   totalAnomalies (buildReport demo_date [demo_anomaly 2000, demo_anomaly 1000] []) = 2 \<and>
   (\<exists>t2 row2.
      db \<lparr>db = Some (empty_tables
                 \<lparr>anomalies_tbl := [demo_anomaly 1000], scans_tbl := [demo_scan 0 1],
                  daily_reports_tbl :=
                    [report_to_row 2 (buildReport demo_date [demo_anomaly 1000] [demo_scan 0 1])],
                  daily_reports_seq := 2\<rparr>)\<rparr> = Some t2 \<and>
      filter (\<lambda>row. rr_date row = isoDate demo_date) (daily_reports_tbl t2) = [row2] \<and>
      rr_total_anomalies row2 = 1 \<and>
      rr_report_data row2 = buildReport demo_date [demo_anomaly 1000] [demo_scan 0 1])"
  (is "?G1 \<and> ?G2 \<and> ?N \<and> ?C")
proof -
  have sa0: "select_anomalies (startOfDay demo_date) (endOfDay demo_date)
               [demo_anomaly 1000, demo_anomaly 2000] = [demo_anomaly 2000, demo_anomaly 1000]"
    by (simp add: select_anomalies_def demo_date_def demo_anomaly_def)
  have sa: "select_anomalies (startOfDay demo_date) (endOfDay demo_date) [demo_anomaly 1000] =
              [demo_anomaly 1000]"
    by (simp add: select_anomalies_def demo_date_def demo_anomaly_def)
  have ss0: "select_scans (startOfDay demo_date) (endOfDay demo_date) [] = []"
    by (simp add: select_scans_def)
  have ss: "select_scans (startOfDay demo_date) (endOfDay demo_date) [demo_scan 0 1] =
              [demo_scan 0 1]"
    by (simp add: select_scans_def demo_date_def demo_scan_def)
  have row_date: "rr_date (report_to_row i (buildReport demo_date X Y)) = isoDate demo_date"
    for i X Y
    by (simp add: report_to_row_def rp_date_buildReport)
  have g1: ?G1
    by (simp add: generateDailyReport_def getAnomalies_def getScans_def saveDailyReport_def
          sa0 ss0 rp_date_buildReport empty_tables_def Let_def)
  have g2: ?G2
    by (simp add: generateDailyReport_def getAnomalies_def getScans_def saveDailyReport_def
          sa ss rp_date_buildReport row_date empty_tables_def numeral_2_eq_2 Let_def)
  have t1: "db \<lparr>db = Some (empty_tables
                 \<lparr>anomalies_tbl := [demo_anomaly 1000, demo_anomaly 2000],
                  daily_reports_tbl :=
                    [report_to_row 1
                       (buildReport demo_date [demo_anomaly 2000, demo_anomaly 1000] [])],
                  daily_reports_seq := 1\<rparr>)\<rparr> =
            Some (empty_tables
                 \<lparr>anomalies_tbl := [demo_anomaly 1000, demo_anomaly 2000],
                  daily_reports_tbl :=
                    [report_to_row 1
                       (buildReport demo_date [demo_anomaly 2000, demo_anomaly 1000] [])],
                  daily_reports_seq := 1\<rparr>)"
    by simp
  have n: ?N
    by (simp add: buildReport_def Let_def)
  from daily_report_upsert [OF g1 t1 refl g2]
  obtain t2 row2 where
    "db \<lparr>db = Some (empty_tables
                 \<lparr>anomalies_tbl := [demo_anomaly 1000], scans_tbl := [demo_scan 0 1],
                  daily_reports_tbl :=
                    [report_to_row 2 (buildReport demo_date [demo_anomaly 1000] [demo_scan 0 1])],
                  daily_reports_seq := 2\<rparr>)\<rparr> = Some t2"
    "filter (\<lambda>row. rr_date row = isoDate demo_date) (daily_reports_tbl t2) = [row2]"
    "rr_total_anomalies row2 =
       length (select_anomalies (startOfDay demo_date) (endOfDay demo_date) [demo_anomaly 1000])"
    "rr_report_data row2 = buildReport demo_date [demo_anomaly 1000] [demo_scan 0 1]"
    by blast
  then have c: ?C
    unfolding sa by (intro exI [of _ t2] exI [of _ row2]) simp
  from g1 g2 n c show ?thesis by blast
qed

section \<open>Alerts\<close>

text \<open>
  C7. The specification asks that every recorded anomaly of significance \<open>high\<close> or
  \<open>critical\<close> raises the alert exactly once. In the source the alert comes after the awaited
  save, with nothing catching a rejection: when the save of an anomaly is rejected,
  \<open>recordAnomaly\<close> rejects with the same error, the anomaly is on the anomaly list, the
  database is as before, and no alert has been raised, whatever the significance.
\<close>

theorem alert_skipped_when_save_rejected:
  assumes "saveAnomaly (stamp c a) (database s) = Inl e"
  shows "fst (recordAnomaly c a s) = Inl e \<and>
         anomalies (snd (recordAnomaly c a s)) = anomalies s @ [stamp c a] \<and>
         database (snd (recordAnomaly c a s)) = database s \<and>
         alerts (snd (recordAnomaly c a s)) = alerts s"
  using assms
  by (simp add: recordAnomaly_def stamp_def Let_def)

theorem alert_skipped_when_save_rejected_witness:
  "saveAnomaly (stamp (demo_clock 1000) (battery_777 (Fin 0.077))) (database full_disk_monitor) =
     Inl SQLError \<and>
   an_significance (stamp (demo_clock 1000) (battery_777 (Fin 0.077))) = ''high'' \<and>
   anomalies (snd (recordAnomaly (demo_clock 1000) (battery_777 (Fin 0.077)) full_disk_monitor)) =
     [stamp (demo_clock 1000) (battery_777 (Fin 0.077))] \<and>
   alerts (snd (recordAnomaly (demo_clock 1000) (battery_777 (Fin 0.077)) full_disk_monitor)) = []"
proof -
  have h: "saveAnomaly (stamp (demo_clock 1000) (battery_777 (Fin 0.077)))
             (database full_disk_monitor) = Inl SQLError"
    by (simp add: saveAnomaly_def full_disk_monitor_def)
  have g: "an_significance (stamp (demo_clock 1000) (battery_777 (Fin 0.077))) = ''high''"
    by (simp add: stamp_def battery_777_def mk_anomaly_def)
  have a: "anomalies full_disk_monitor = []" "alerts full_disk_monitor = []"
    by (simp_all add: full_disk_monitor_def demo_monitor_def new_SensorMonitor_def)
  show ?thesis
    using h g alert_skipped_when_save_rejected [OF h] by (simp add: a)
qed

text \<open>
  When the save succeeds, \<open>recordAnomaly\<close> resolves, the anomaly is on the anomaly list and
  in the database, and the alert log has grown by exactly that anomaly if its significance
  is \<open>high\<close> or \<open>critical\<close> and is unchanged otherwise.
\<close>

lemma alert_once_when_saved:
  assumes "saveAnomaly (stamp c a) (database s) = Inr d"
  shows "fst (recordAnomaly c a s) = Inr () \<and>
         database (snd (recordAnomaly c a s)) = d \<and>
         anomalies (snd (recordAnomaly c a s)) = anomalies s @ [stamp c a] \<and>
         alerts (snd (recordAnomaly c a s)) =
           alerts s @ (if an_significance a = ''high'' \<or> an_significance a = ''critical''
                       then [stamp c a] else [])"
  using assms
  by (auto simp add: recordAnomaly_def stamp_def triggerAlert_def Let_def)

section \<open>Trend labels\<close>

text \<open>
  C8, as stated: the label is \<open>stable\<close> exactly when the percent change has absolute value
  below 1. It fails on a series of one value: the label is \<open>stable\<close> by the length guard,
  while the first half is empty, its mean is \<open>0 / 0\<close>, and the percent change is \<open>NaN\<close>, which
  is not below 1.
\<close>

theorem calculateTrend_single_value_counterexample:
  "calculateTrend [Fin 5] = Lit ''stable'' \<and> \<not> jlt (jabs (percentChange [Fin 5])) (Fin 1)"
  by (simp add: calculateTrend_def percentChange_def sum_values_def jsub_def jnat_def Let_def)

text \<open>
  C8, amended. \<open>calculateTrend([10,10,10,20,20,20])\<close> is the \<open>increasing\<close> label with a
  percent change of 100, and \<open>calculateTrend([10,10,10,10,10,10])\<close> is \<open>stable\<close>. For a series
  of at least two values the label is \<open>stable\<close> exactly when the percent change of the
  second-half mean relative to the first-half mean has absolute value less than 1; a series
  of fewer than two values is labelled \<open>stable\<close> without a percent change.
\<close>

theorem calculateTrend_label:
  "calculateTrend [Fin 10, Fin 10, Fin 10, Fin 20, Fin 20, Fin 20] =
     Fixed1 ''increasing '' (Fin 100) ''%'' \<and>
   calculateTrend [Fin 10, Fin 10, Fin 10, Fin 10, Fin 10, Fin 10] = Lit ''stable'' \<and>
   (2 \<le> length vals \<longrightarrow>
      (calculateTrend vals = Lit ''stable'') = jlt (jabs (percentChange vals)) (Fin 1)) \<and>
   (length vals < 2 \<longrightarrow> calculateTrend vals = Lit ''stable'')"
  by (simp add: calculateTrend_def percentChange_def sum_values_def jsub_def jnat_def jgt_def
        Let_def)

theorem calculateTrend_label_witness:
  "2 \<le> length [Fin 10, Fin 10, Fin 10, Fin 20, Fin 20, Fin 20] \<and>
   percentChange [Fin 10, Fin 10, Fin 10, Fin 20, Fin 20, Fin 20] = Fin 100 \<and>
   calculateTrend [Fin 10, Fin 10, Fin 10, Fin 20, Fin 20, Fin 20] \<noteq> Lit ''stable'' \<and>
   length [Fin 5] < 2 \<and> calculateTrend [Fin 5] = Lit ''stable''"
  using calculateTrend_label [of "[Fin 10, Fin 10, Fin 10, Fin 20, Fin 20, Fin 20]"]
    calculateTrend_label [of "[Fin 5]"]
  by (simp add: percentChange_def sum_values_def jsub_def jnat_def Let_def)

section \<open>The battery rules\<close>

text \<open>
  C9. With a baseline present, a battery sample whose drain per hour, computed from the
  baseline level and the elapsed hours, is exactly 0.077 makes the listener record exactly
  one anomaly: \<open>battery_777\<close> with significance \<open>high\<close>. A drain per hour of 0.090 makes it
  record none.
\<close>

theorem battery_777_rule:
  assumes "baselineData s = Some b"
  shows "(drainPerHour c b lvl = Fin 0.077 \<longrightarrow>
            produced s (batteryLevelListener c lvl s) = [stamp c (battery_777 (Fin 0.077))] \<and>
            an_type (stamp c (battery_777 (Fin 0.077))) = ''battery_777'' \<and>
            an_significance (stamp c (battery_777 (Fin 0.077))) = ''high'') \<and>
         (drainPerHour c b lvl = Fin 0.090 \<longrightarrow>
            produced s (batteryLevelListener c lvl s) = [])"
  using assms
  by (simp add: batteryLevelListener_def produced_def Let_def jsub_def anomalies_recordAnomaly
        stamp_def battery_777_def mk_anomaly_def)

theorem battery_777_rule_witness:
  "baselineData (demo_monitor (demo_baseline 0.077)) = Some (demo_baseline 0.077) \<and>
   drainPerHour (demo_clock 3600000) (demo_baseline 0.077) (Fin 0) = Fin 0.077 \<and>
   produced (demo_monitor (demo_baseline 0.077))
     (batteryLevelListener (demo_clock 3600000) (Fin 0) (demo_monitor (demo_baseline 0.077))) =
     [stamp (demo_clock 3600000) (battery_777 (Fin 0.077))] \<and>
   baselineData (demo_monitor (demo_baseline 0.090)) = Some (demo_baseline 0.090) \<and>
   drainPerHour (demo_clock 3600000) (demo_baseline 0.090) (Fin 0) = Fin 0.090 \<and>
   produced (demo_monitor (demo_baseline 0.090))
     (batteryLevelListener (demo_clock 3600000) (Fin 0) (demo_monitor (demo_baseline 0.090))) = []"
proof -
  have b: "baselineData (demo_monitor x) = Some x" for x
    by (simp add: demo_monitor_def)
  have d: "drainPerHour (demo_clock 3600000) (demo_baseline x) (Fin 0) = Fin x" for x
    by (simp add: drainPerHour_def demo_clock_def demo_baseline_def jsub_def jint_def Let_def)
  show ?thesis
    using b d
      battery_777_rule [of "demo_monitor (demo_baseline 0.077)" "demo_baseline 0.077"
        "demo_clock 3600000" "Fin 0"]
      battery_777_rule [of "demo_monitor (demo_baseline 0.090)" "demo_baseline 0.090"
        "demo_clock 3600000" "Fin 0"]
    by blast
qed

text \<open>
  C10. When a battery sample arrives at the very millisecond of the baseline timestamp, the
  elapsed time is 0 and the unguarded division gives \<open>Infinity\<close>, \<open>-Infinity\<close> or \<open>NaN\<close>. For
  a level strictly above the baseline level it gives \<open>-Infinity\<close>, which is below 0, and the
  listener records exactly one anomaly: \<open>battery_increase\<close> with significance \<open>critical\<close>.
\<close>

theorem battery_zero_elapsed:
  assumes "baselineData s = Some b"
      and "now c = bl_timestamp b"
      and "bd_level (bl_battery b) = Fin l0"
  shows "(drainPerHour c b (Fin l) = PInf \<or> drainPerHour c b (Fin l) = NInf \<or>
          drainPerHour c b (Fin l) = NaN) \<and>
         (l0 < l \<longrightarrow>
            drainPerHour c b (Fin l) = NInf \<and> jlt (drainPerHour c b (Fin l)) (Fin 0) \<and>
            produced s (batteryLevelListener c (Fin l) s) = [stamp c (battery_increase NInf)] \<and>
            an_type (stamp c (battery_increase NInf)) = ''battery_increase'' \<and>
            an_significance (stamp c (battery_increase NInf)) = ''critical'')"
proof -
  have d: "drainPerHour c b (Fin l) = (if l0 = l then NaN else if l < l0 then PInf else NInf)"
    using assms by (simp add: drainPerHour_def jsub_def jint_def Let_def)
  show ?thesis
    using assms(1)
    by (simp add: d batteryLevelListener_def produced_def Let_def jsub_def
          anomalies_recordAnomaly stamp_def battery_increase_def mk_anomaly_def)
qed

theorem battery_zero_elapsed_witness:
  "baselineData (demo_monitor (demo_baseline 0.5)) = Some (demo_baseline 0.5) \<and>
   now (demo_clock 0) = bl_timestamp (demo_baseline 0.5) \<and>
   bd_level (bl_battery (demo_baseline 0.5)) = Fin 0.5 \<and> (0.5 :: real) < 0.6 \<and>
   drainPerHour (demo_clock 0) (demo_baseline 0.5) (Fin 0.6) = NInf \<and>
   produced (demo_monitor (demo_baseline 0.5))
     (batteryLevelListener (demo_clock 0) (Fin 0.6) (demo_monitor (demo_baseline 0.5))) =
     [stamp (demo_clock 0) (battery_increase NInf)]"
proof -
  have b: "baselineData (demo_monitor (demo_baseline 0.5)) = Some (demo_baseline 0.5)"
    by (simp add: demo_monitor_def)
  have t: "now (demo_clock 0) = bl_timestamp (demo_baseline 0.5)"
    by (simp add: demo_clock_def demo_baseline_def)
  have l: "bd_level (bl_battery (demo_baseline 0.5)) = Fin 0.5"
    by (simp add: demo_baseline_def)
  have lt: "(0.5 :: real) < 0.6" by simp
  show ?thesis
    using b t l lt battery_zero_elapsed [OF b t l, of "0.6"] by blast
qed


end
